theory Spec2Isabelle
  imports Complex_Main
begin

section \<open>Values handled by the component\<close>

text \<open>
  The source is one React module, \<^verbatim>\<open>src/DiseasePrediction.jsx\<close>, with two function
  components: \<^verbatim>\<open>CameraView\<close> and \<^verbatim>\<open>DiseasePrediction\<close>. Their state cells
  (\<^verbatim>\<open>useState\<close>) and refs (\<^verbatim>\<open>useRef\<close>) become fields of records, every handler
  becomes a function from state to state, and what the handlers ask of the browser (alerts,
  console output, network requests, camera requests) is appended to a list of effects.
  What the browser answers (a promise that fulfils or rejects) is an argument.
\<close>

text \<open>
  A parsed response body is an arbitrary JSON value. JavaScript's \<^verbatim>\<open>null\<close> is
  \<open>JNull\<close>: the state cell \<^verbatim>\<open>predictionResult\<close> starts as \<^verbatim>\<open>null\<close> and a body that
  parses to \<^verbatim>\<open>null\<close> is the same value. A number is the double the parser produced:
  a finite double is the rational it denotes (both zeros are \<open>Finite 0\<close>), and a literal
  too large for a double parses to an infinity. The parser produces no NaN. The functions
  below only test a number for zero.
\<close>

datatype number = Finite rat | PosInfinity | NegInfinity

datatype json =
    JNull
  | JBool bool
  | JNum number
  | JStr string
  | JArr "json list"
  | JObj "(string \<times> json) list"

text \<open>JavaScript truthiness, as tested by \<^verbatim>\<open>!result\<close> and \<^verbatim>\<open>predictionResult && ...\<close>.\<close>

fun truthy :: "json \<Rightarrow> bool" where
  "truthy JNull = False"
| "truthy (JBool b) = b"
| "truthy (JNum n) = (n \<noteq> Finite 0)"
| "truthy (JStr t) = (t \<noteq> [])"
| "truthy (JArr vs) = True"
| "truthy (JObj kvs) = True"

text \<open>
  A cell that holds \<^verbatim>\<open>null\<close> or a string (\<^verbatim>\<open>imageSrc\<close>, \<^verbatim>\<open>error\<close>) is a
  \<open>string option\<close>; \<^verbatim>\<open>!imageSrc\<close> is true for \<^verbatim>\<open>null\<close> and for the empty string.
\<close>

definition truthy_str :: "string option \<Rightarrow> bool" where
  "truthy_str v = (case v of None \<Rightarrow> False | Some t \<Rightarrow> t \<noteq> [])"

text \<open>The outcome of an awaited promise.\<close>

datatype 'a settled = Rejected | Fulfilled 'a

record blob =
  mime :: string
  bytes :: "nat list"

text \<open>An entry of a \<^verbatim>\<open>FormData\<close>: field name, value, file name.\<close>

type_synonym form_data = "(string \<times> blob \<times> string) list"

text \<open>The response of \<^verbatim>\<open>fetch(imageSrc)\<close>; only its \<^verbatim>\<open>blob()\<close> promise is used.\<close>

datatype image_response = ImageResponse (blob_promise: "blob settled")

text \<open>
  The response of the POST. \<^verbatim>\<open>apiResponse.ok\<close> is, by the Fetch standard, true exactly
  for a status from 200 to 299; \<open>json_body\<close> is the outcome of \<^verbatim>\<open>apiResponse.json()\<close>,
  rejected when the body does not parse.
\<close>

record api_response =
  status :: nat
  statusText :: string
  json_body :: "json settled"

definition ok :: "api_response \<Rightarrow> bool" where
  "ok r = (200 \<le> status r \<and> status r \<le> 299)"

type_synonym picked_file = string

type_synonym media_stream = "nat list"

datatype effect =
    ConsoleError string
  | Alert string
  | GetUserMedia
  | OnCapture string
  | OnClose
  | TrackStop nat
  | ReadAsDataURL picked_file
  | Fetch string
  | FetchPost string form_data

section \<open>State\<close>

text \<open>
  The mounted \<^verbatim>\<open>CameraView\<close>. \<open>stream\<close> is its state cell, \<open>srcObject\<close> the property of
  the video element behind \<^verbatim>\<open>videoRef\<close>. \<open>cleanup_stream\<close> is the binding of
  \<^verbatim>\<open>stream\<close> that the cleanup function of the effect closes over: the effect has the
  dependency list \<^verbatim>\<open>[]\<close>, so it runs once, after the first render, and its cleanup
  keeps the \<^verbatim>\<open>stream\<close> constant of that render.
\<close>

record camera_view =
  stream :: "media_stream option"
  srcObject :: "media_stream option"
  cleanup_stream :: "media_stream option"

text \<open>
  The state cells of \<^verbatim>\<open>DiseasePrediction\<close>, the value of the file input behind
  \<^verbatim>\<open>fileInputRef\<close> (\<open>None\<close> while \<^verbatim>\<open>fileInputRef.current\<close> is \<^verbatim>\<open>null\<close>), the
  \<^verbatim>\<open>CameraView\<close> instance when one is mounted, the tracks of the device that are live,
  and the effects issued so far. \<open>OnCapture\<close> and \<open>OnClose\<close> record the calls of the two
  props of \<^verbatim>\<open>CameraView\<close>.
\<close>

record sys =
  predictionResult :: json
  isLoading :: bool
  imageSrc :: "string option"
  isCameraOpen :: bool
  error :: "string option"
  fileInputRef :: "string option"
  cameraView :: "camera_view option"
  liveTracks :: "nat set"
  effects :: "effect list"

definition init :: sys where
  "init = \<lparr>predictionResult = JNull, isLoading = False, imageSrc = None,
      isCameraOpen = False, error = None, fileInputRef = Some [],
      cameraView = None, liveTracks = {}, effects = []\<rparr>"

definition emit :: "effect list \<Rightarrow> sys \<Rightarrow> sys" where
  "emit es s = s\<lparr>effects := effects s @ es\<rparr>"

section \<open>CameraView\<close>

text \<open>
  Mounting: the first render has \<^verbatim>\<open>stream = null\<close> (\<^verbatim>\<open>useState(null)\<close>); then the effect
  runs, calls \<^verbatim>\<open>openCamera()\<close>, which requests the camera and suspends, and returns the
  cleanup function, which holds the \<^verbatim>\<open>stream\<close> of this render.
\<close>

definition CameraView_mount :: "sys \<Rightarrow> sys" where
  "CameraView_mount s =
     (let stream0 = None
      in emit [GetUserMedia]
           (s\<lparr>cameraView :=
                Some \<lparr>stream = stream0, srcObject = None, cleanup_stream = stream0\<rparr>\<rparr>))"

definition track_stop :: "nat \<Rightarrow> sys \<Rightarrow> sys" where
  "track_stop t s = emit [TrackStop t] (s\<lparr>liveTracks := liveTracks s - {t}\<rparr>)"

text \<open>
  The cleanup function:
  \<^verbatim>\<open>if (stream) { stream.getTracks().forEach(track => track.stop()); }\<close>
  on the \<^verbatim>\<open>stream\<close> it closed over.
\<close>

definition cleanup :: "camera_view \<Rightarrow> sys \<Rightarrow> sys" where
  "cleanup cv s =
     (case cleanup_stream cv of
        None \<Rightarrow> s
      | Some ms \<Rightarrow> foldl (\<lambda>s' t. track_stop t s') s ms)"

text \<open>
  Rendering \<^verbatim>\<open>{isCameraOpen && <CameraView ... />}\<close>: the view is mounted when the flag
  turns true and unmounted, running the cleanup of its effect, when it turns false.
\<close>

definition rerender :: "sys \<Rightarrow> sys" where
  "rerender s =
     (case cameraView s of
        None \<Rightarrow> if isCameraOpen s then CameraView_mount s else s
      | Some cv \<Rightarrow> if isCameraOpen s then s else (cleanup cv s)\<lparr>cameraView := None\<rparr>)"

definition setIsCameraOpen :: "bool \<Rightarrow> sys \<Rightarrow> sys" where
  "setIsCameraOpen b s = rerender (s\<lparr>isCameraOpen := b\<rparr>)"

text \<open>
  \<^verbatim>\<open>openCamera\<close> after \<^verbatim>\<open>await getUserMedia(...)\<close> fulfils with a stream, whose tracks
  are live from then on: \<^verbatim>\<open>setStream(mediaStream)\<close> and, if the video element is there,
  \<^verbatim>\<open>videoRef.current.srcObject = mediaStream\<close>. The view renders again, but the effect
  does not run again. On a view that is gone \<^verbatim>\<open>setStream\<close> does nothing and
  \<^verbatim>\<open>videoRef.current\<close> is \<^verbatim>\<open>null\<close>.
\<close>

definition openCamera_fulfilled :: "media_stream \<Rightarrow> sys \<Rightarrow> sys" where
  "openCamera_fulfilled ms s =
     (let s1 = s\<lparr>liveTracks := liveTracks s \<union> set ms\<rparr>
      in case cameraView s1 of
           None \<Rightarrow> s1
         | Some cv \<Rightarrow> s1\<lparr>cameraView := Some (cv\<lparr>stream := Some ms, srcObject := Some ms\<rparr>)\<rparr>)"

definition camera_alert :: string where
  "camera_alert = ''Could not access the camera. Please ensure you have given permission.''"

text \<open>The \<^verbatim>\<open>catch\<close> block of \<^verbatim>\<open>openCamera\<close>, with the \<^verbatim>\<open>onClose\<close> prop as argument.\<close>

definition openCamera_rejected :: "(sys \<Rightarrow> sys) \<Rightarrow> sys \<Rightarrow> sys" where
  "openCamera_rejected onClose s =
     onClose (emit [ConsoleError ''Error accessing camera: '', Alert camera_alert] s)"

text \<open>
  \<^verbatim>\<open>handleCapture\<close>, with both props as arguments; \<open>dataURL\<close> is what
  \<^verbatim>\<open>canvas.toDataURL('image/jpeg')\<close> returns for the frame drawn.
\<close>

definition handleCapture ::
  "(string \<Rightarrow> sys \<Rightarrow> sys) \<Rightarrow> (sys \<Rightarrow> sys) \<Rightarrow> string \<Rightarrow> sys \<Rightarrow> sys" where
  "handleCapture onCapture onClose dataURL s = onClose (onCapture dataURL s)"

section \<open>DiseasePrediction\<close>

text \<open>
  \<^verbatim>\<open>handleImageChange\<close> starts the read of the first selected file, if there is one;
  \<open>reader_onload\<close> is the \<^verbatim>\<open>onload\<close> handler it installs, called with
  \<^verbatim>\<open>event.target.result\<close>. No \<^verbatim>\<open>onerror\<close> handler is installed.
\<close>

definition handleImageChange :: "picked_file list option \<Rightarrow> sys \<Rightarrow> sys" where
  "handleImageChange files s =
     (case files of
        None \<Rightarrow> s
      | Some [] \<Rightarrow> s
      | Some (f # fs) \<Rightarrow> emit [ReadAsDataURL f] s)"

definition reader_onload :: "string \<Rightarrow> sys \<Rightarrow> sys" where
  "reader_onload result s =
     s\<lparr>imageSrc := Some result, predictionResult := JNull, error := None\<rparr>"

definition handleCameraCapture :: "string \<Rightarrow> sys \<Rightarrow> sys" where
  "handleCameraCapture imageData s =
     s\<lparr>imageSrc := Some imageData, predictionResult := JNull, error := None\<rparr>"

text \<open>The props handed to \<^verbatim>\<open>CameraView\<close>, each recording its call.\<close>

definition onCapture_prop :: "string \<Rightarrow> sys \<Rightarrow> sys" where
  "onCapture_prop imageData s = handleCameraCapture imageData (emit [OnCapture imageData] s)"

definition onClose_prop :: "sys \<Rightarrow> sys" where
  "onClose_prop s = setIsCameraOpen False (emit [OnClose] s)"

definition handleClear :: "sys \<Rightarrow> sys" where
  "handleClear s =
     (let s1 = s\<lparr>imageSrc := None, predictionResult := JNull, error := None\<rparr>
      in case fileInputRef s1 of
           None \<Rightarrow> s1
         | Some v \<Rightarrow> s1\<lparr>fileInputRef := Some []\<rparr>)"

subsection \<open>handlePredict\<close>

definition predict_url :: string where
  "predict_url = ''http://localhost:8000/predict''"

definition predict_error :: string where
  "predict_error =
     ''Error predicting disease. Please try again. Make sure the backend server is running.''"

text \<open>\<^verbatim>\<open>formData.append("file", blob, "skin_image.jpg")\<close> on a new \<^verbatim>\<open>FormData\<close>.\<close>

definition formData :: "blob \<Rightarrow> form_data" where
  "formData b = [(''file'', b, ''skin_image.jpg'')]"

text \<open>
  The \<^verbatim>\<open>catch\<close> and \<^verbatim>\<open>finally\<close> blocks. The console entry keeps the label and leaves
  out the error object, which is all that tells a bad status from a rejected promise.
\<close>

definition predict_catch :: "sys \<Rightarrow> sys" where
  "predict_catch s = (emit [ConsoleError ''Prediction error:''] s)\<lparr>error := Some predict_error\<rparr>"

definition predict_finally :: "sys \<Rightarrow> sys" where
  "predict_finally s = s\<lparr>isLoading := False\<rparr>"

text \<open>
  What the browser answers to one run: the response of \<^verbatim>\<open>fetch(imageSrc)\<close> and the
  response of the POST.
\<close>

record predict_env =
  fetch_get :: "string \<Rightarrow> image_response settled"
  fetch_post :: "string \<Rightarrow> form_data \<Rightarrow> api_response settled"

text \<open>One run of \<^verbatim>\<open>handlePredict\<close> from its call to its return, nothing else in between.\<close>

definition handlePredict :: "predict_env \<Rightarrow> sys \<Rightarrow> sys" where
  "handlePredict env s =
     (case imageSrc s of
        None \<Rightarrow> s
      | Some src \<Rightarrow>
          (if src = [] then s
           else
             (let s1 = s\<lparr>isLoading := True, predictionResult := JNull, error := None\<rparr>;
                  s2 = emit [Fetch src] s1
              in (case fetch_get env src of
                    Rejected \<Rightarrow> predict_finally (predict_catch s2)
                  | Fulfilled response \<Rightarrow>
                      (case blob_promise response of
                         Rejected \<Rightarrow> predict_finally (predict_catch s2)
                       | Fulfilled b \<Rightarrow>
                           (let s3 = emit [FetchPost predict_url (formData b)] s2
                            in (case fetch_post env predict_url (formData b) of
                                  Rejected \<Rightarrow> predict_finally (predict_catch s3)
                                | Fulfilled apiResponse \<Rightarrow>
                                    (if \<not> ok apiResponse
                                     then predict_finally (predict_catch s3)
                                     else
                                       (case json_body apiResponse of
                                          Rejected \<Rightarrow> predict_finally (predict_catch s3)
                                        | Fulfilled data \<Rightarrow>
                                            predict_finally
                                              (s3\<lparr>predictionResult := data\<rparr>))))))))))"

subsection \<open>Rendering\<close>

text \<open>
  Reading a property of a parsed value, for the four names the result panel reads
  (\<^verbatim>\<open>prediction\<close>, \<^verbatim>\<open>confidence\<close>, \<^verbatim>\<open>description\<close>, \<^verbatim>\<open>precautions\<close>): \<open>None\<close> is
  \<^verbatim>\<open>undefined\<close>. Only an object can have them; of a key that occurs twice the parser
  keeps the last value. The panel reads them from a truthy \<^verbatim>\<open>result\<close>, so the read
  itself does not throw.
\<close>

fun property :: "string \<Rightarrow> json \<Rightarrow> json option" where
  "property k (JObj kvs) = map_of (rev kvs) k"
| "property k v = None"

text \<open>
  What React accepts as a child of an element: text, numbers, and \<^verbatim>\<open>null\<close>,
  \<^verbatim>\<open>undefined\<close> and booleans (which show nothing), and arrays of such. For a plain object
  it throws (objects are not valid as a React child).
\<close>

fun valid_child :: "json \<Rightarrow> bool" where
  "valid_child (JObj kvs) = False"
| "valid_child (JArr vs) = list_all valid_child vs"
| "valid_child v = True"

definition valid_child_opt :: "json option \<Rightarrow> bool" where
  "valid_child_opt v = (case v of None \<Rightarrow> True | Some c \<Rightarrow> valid_child c)"

datatype render_error = TypeError | InvalidChild

text \<open>The values the result panel shows.\<close>

record panel =
  shown_prediction :: "json option"
  shown_confidence :: "json option"
  shown_description :: "json option"
  shown_precautions :: "json list"

text \<open>
  The component \<^verbatim>\<open>PredictionResult\<close> (lines 56 to 92): nothing for a falsy
  \<^verbatim>\<open>result\<close>; otherwise the panel. \<^verbatim>\<open>result.precautions.map(...)\<close> throws a TypeError
  unless \<^verbatim>\<open>result.precautions\<close> is an array: \<^verbatim>\<open>undefined\<close> and \<^verbatim>\<open>null\<close> have no
  properties, and no other parsed value has a function \<^verbatim>\<open>map\<close>. The elements built are
  then given to React, which throws if a child is an object.
\<close>

definition PredictionResult_render :: "json \<Rightarrow> render_error + panel option" where
  "PredictionResult_render result =
     (if \<not> truthy result then Inr None
      else
        (case property ''precautions'' result of
           Some (JArr ps) \<Rightarrow>
             (if valid_child_opt (property ''prediction'' result) \<and>
                 valid_child_opt (property ''confidence'' result) \<and>
                 valid_child_opt (property ''description'' result) \<and>
                 list_all valid_child ps
              then Inr (Some \<lparr>shown_prediction = property ''prediction'' result,
                               shown_confidence = property ''confidence'' result,
                               shown_description = property ''description'' result,
                               shown_precautions = ps\<rparr>)
              else Inl InvalidChild)
         | _ \<Rightarrow> Inl TypeError))"

text \<open>
  What \<^verbatim>\<open>{predictionResult && <PredictionResult ... />}\<close> puts on the screen: for a falsy
  \<^verbatim>\<open>predictionResult\<close> the value itself is the child, which shows nothing, except that the
  number 0 shows as the text \<^verbatim>\<open>0\<close>.
\<close>

datatype result_slot = Empty | StrayZero | Panel panel

record screen =
  busy :: bool
  predict_disabled :: bool
  preview :: "string option"
  banner :: "string option"
  result_slot :: result_slot

text \<open>
  The render of \<^verbatim>\<open>DiseasePrediction\<close> (lines 166 to 251), as far as it depends on the
  state: the predict button (\<^verbatim>\<open>disabled={isLoading || !imageSrc}\<close>, spinner while
  loading), the preview (\<^verbatim>\<open>imageSrc ? ...\<close>), the error banner (\<^verbatim>\<open>error && ...\<close>) and the
  result. \<open>Inl\<close> is a render that throws; nothing in the source catches it, so React
  removes the component. The camera overlay is handled by \<open>rerender\<close>.
\<close>

definition render :: "sys \<Rightarrow> render_error + screen" where
  "render s =
     (case (if truthy (predictionResult s)
            then (case PredictionResult_render (predictionResult s) of
                    Inl e \<Rightarrow> Inl e
                  | Inr None \<Rightarrow> Inr Empty
                  | Inr (Some p) \<Rightarrow> Inr (Panel p))
            else Inr (if predictionResult s = JNum (Finite 0) then StrayZero else Empty)) of
        Inl e \<Rightarrow> Inl e
      | Inr slot \<Rightarrow>
          Inr \<lparr>busy = isLoading s,
               predict_disabled = (isLoading s \<or> \<not> truthy_str (imageSrc s)),
               preview = (if truthy_str (imageSrc s) then imageSrc s else None),
               banner = (if truthy_str (error s) then error s else None),
               result_slot = slot\<rparr>)"


text \<open>
  The request state is not a variable of the source; it is read off what the render shows:
  Loading is the spinner, Failed the error banner, Succeeded the result panel, Idle none of
  them. A state whose render throws, or shows a stray \<^verbatim>\<open>0\<close>, is none of the four.
\<close>

datatype request_state = Idle | Loading | Succeeded | Failed

definition requestState :: "sys \<Rightarrow> request_state option" where
  "requestState s =
     (case render s of
        Inl e \<Rightarrow> None
      | Inr scr \<Rightarrow>
          (if busy scr then Some Loading
           else if banner scr \<noteq> None then Some Failed
           else (case result_slot scr of
                   Empty \<Rightarrow> Some Idle
                 | StrayZero \<Rightarrow> None
                 | Panel p \<Rightarrow> Some Succeeded)))"

text \<open>The POST requests among a list of effects.\<close>

fun posts :: "effect list \<Rightarrow> (string \<times> form_data) list" where
  "posts [] = []"
| "posts (FetchPost url body # es) = (url, body) # posts es"
| "posts (e # es) = posts es"

fun alerts :: "effect list \<Rightarrow> string list" where
  "alerts [] = []"
| "alerts (Alert m # es) = m # alerts es"
| "alerts (e # es) = alerts es"

fun captures :: "effect list \<Rightarrow> string list" where
  "captures [] = []"
| "captures (OnCapture d # es) = d # captures es"
| "captures (e # es) = captures es"

subsection \<open>handlePredict between its await points\<close>

text \<open>
  \<^verbatim>\<open>handlePredict\<close> is an \<^verbatim>\<open>async\<close> function: at each \<^verbatim>\<open>await\<close> it returns to the
  event loop, and other handlers may run before it resumes. An activation is either
  finished or suspended at one of its four \<^verbatim>\<open>await\<close>s; the functions below are the
  code from the call to the first \<^verbatim>\<open>await\<close> and from each \<^verbatim>\<open>await\<close> to the next.
\<close>

datatype await_point = AwaitImageResponse | AwaitBlob | AwaitApiResponse | AwaitJson

datatype activation = Finished sys | Suspended await_point sys

definition handlePredict_begin :: "sys \<Rightarrow> activation" where
  "handlePredict_begin s =
     (case imageSrc s of
        None \<Rightarrow> Finished s
      | Some src \<Rightarrow>
          (if src = [] then Finished s
           else Suspended AwaitImageResponse
                  (emit [Fetch src]
                     (s\<lparr>isLoading := True, predictionResult := JNull, error := None\<rparr>))))"

definition resume_image_response :: "image_response settled \<Rightarrow> sys \<Rightarrow> activation" where
  "resume_image_response r s =
     (case r of
        Rejected \<Rightarrow> Finished (predict_finally (predict_catch s))
      | Fulfilled response \<Rightarrow> Suspended AwaitBlob s)"

definition resume_blob :: "blob settled \<Rightarrow> sys \<Rightarrow> activation" where
  "resume_blob r s =
     (case r of
        Rejected \<Rightarrow> Finished (predict_finally (predict_catch s))
      | Fulfilled b \<Rightarrow>
          Suspended AwaitApiResponse (emit [FetchPost predict_url (formData b)] s))"

definition resume_api_response :: "api_response settled \<Rightarrow> sys \<Rightarrow> activation" where
  "resume_api_response r s =
     (case r of
        Rejected \<Rightarrow> Finished (predict_finally (predict_catch s))
      | Fulfilled apiResponse \<Rightarrow>
          (if \<not> ok apiResponse then Finished (predict_finally (predict_catch s))
           else Suspended AwaitJson s))"

definition resume_json :: "json settled \<Rightarrow> sys \<Rightarrow> activation" where
  "resume_json r s =
     (case r of
        Rejected \<Rightarrow> Finished (predict_finally (predict_catch s))
      | Fulfilled data \<Rightarrow> Finished (predict_finally (s\<lparr>predictionResult := data\<rparr>)))"

section \<open>The component as a transition system\<close>

text \<open>
  A configuration is the state together with the activations of \<^verbatim>\<open>handlePredict\<close> that
  are suspended. An event is a user action or the settling of a promise. A user action is
  enabled when its control is rendered and not disabled: the predict button has
  \<^verbatim>\<open>disabled={isLoading || !imageSrc}\<close>, the clear button is rendered only under
  \<^verbatim>\<open>imageSrc ? ...\<close>, the two camera buttons belong to the mounted \<^verbatim>\<open>CameraView\<close>.
  The settling of a file read or of a camera request is not tied to a pending request: the
  system has more runs than the browser allows, never fewer. The answer to a camera request
  is delivered to the view that is mounted; this matters only for the fields of the view,
  not for the flags of \<^verbatim>\<open>DiseasePrediction\<close>. A configuration whose render throws has
  successors here and none in the browser.
\<close>

record config =
  app :: sys
  inflight :: "await_point list"

datatype event =
    SelectFile "picked_file list option"
  | FileLoaded string
  | UseCameraClick
  | CameraGranted media_stream
  | CameraDenied
  | CaptureClick string
  | CloseCameraClick
  | PredictClick
  | ClearClick
  | ImageResponseSettled "image_response settled"
  | BlobSettled "blob settled"
  | ApiResponseSettled "api_response settled"
  | JsonSettled "json settled"

definition suspend :: "await_point list \<Rightarrow> activation \<Rightarrow> config" where
  "suspend ps a =
     (case a of
        Finished s \<Rightarrow> \<lparr>app = s, inflight = ps\<rparr>
      | Suspended q s \<Rightarrow> \<lparr>app = s, inflight = q # ps\<rparr>)"

definition resume :: "await_point \<Rightarrow> (sys \<Rightarrow> activation) \<Rightarrow> config \<Rightarrow> config option" where
  "resume p k c =
     (if p \<in> set (inflight c) then Some (suspend (remove1 p (inflight c)) (k (app c)))
      else None)"

definition ui :: "(sys \<Rightarrow> sys) \<Rightarrow> config \<Rightarrow> config option" where
  "ui h c = Some (c\<lparr>app := h (app c)\<rparr>)"

fun fire :: "event \<Rightarrow> config \<Rightarrow> config option" where
  "fire (SelectFile files) c = ui (handleImageChange files) c"
| "fire (FileLoaded result) c = ui (reader_onload result) c"
| "fire UseCameraClick c = ui (setIsCameraOpen True) c"
| "fire (CameraGranted ms) c = ui (openCamera_fulfilled ms) c"
| "fire CameraDenied c = ui (openCamera_rejected onClose_prop) c"
| "fire (CaptureClick dataURL) c =
     (if cameraView (app c) = None then None
      else ui (handleCapture onCapture_prop onClose_prop dataURL) c)"
| "fire CloseCameraClick c =
     (if cameraView (app c) = None then None else ui onClose_prop c)"
| "fire PredictClick c =
     (if isLoading (app c) \<or> \<not> truthy_str (imageSrc (app c)) then None
      else Some (suspend (inflight c) (handlePredict_begin (app c))))"
| "fire ClearClick c =
     (if truthy_str (imageSrc (app c)) then ui handleClear c else None)"
| "fire (ImageResponseSettled r) c = resume AwaitImageResponse (resume_image_response r) c"
| "fire (BlobSettled r) c = resume AwaitBlob (resume_blob r) c"
| "fire (ApiResponseSettled r) c = resume AwaitApiResponse (resume_api_response r) c"
| "fire (JsonSettled r) c = resume AwaitJson (resume_json r) c"

fun run :: "event list \<Rightarrow> config \<Rightarrow> config option" where
  "run [] c = Some c"
| "run (e # es) c = (case fire e c of None \<Rightarrow> None | Some c' \<Rightarrow> run es c')"

definition init_config :: config where
  "init_config = \<lparr>app = init, inflight = []\<rparr>"

text \<open>
  The settling events that the answers of \<open>env\<close> produce for one run on the image
  \<open>src\<close>, in the order in which the run awaits them.
\<close>

definition settlements :: "predict_env \<Rightarrow> string \<Rightarrow> event list" where
  "settlements env src =
     (case fetch_get env src of
        Rejected \<Rightarrow> [ImageResponseSettled Rejected]
      | Fulfilled r \<Rightarrow>
          ImageResponseSettled (Fulfilled r) #
          (case blob_promise r of
             Rejected \<Rightarrow> [BlobSettled Rejected]
           | Fulfilled b \<Rightarrow>
               BlobSettled (Fulfilled b) #
               (case fetch_post env predict_url (formData b) of
                  Rejected \<Rightarrow> [ApiResponseSettled Rejected]
                | Fulfilled a \<Rightarrow>
                    ApiResponseSettled (Fulfilled a) #
                    (if ok a then [JsonSettled (json_body a)] else []))))"

section \<open>Concrete inputs\<close>

definition jpeg_blob :: blob where
  "jpeg_blob = \<lparr>mime = ''image/jpeg'', bytes = [255, 216, 255, 224]\<rparr>"

definition camera_image :: string where
  "camera_image = ''data:image/jpeg;base64,/9j/4A==''"

definition eczema :: json where
  "eczema = JObj [(''prediction'', JStr ''Eczema''), (''confidence'', JNum (Finite (175 / 2))),
     (''description'', JStr ''...''),
     (''precautions'', JArr [JStr ''See a dermatologist'', JStr ''Avoid allergens''])]"

text \<open>A state with an image; and one with an image, a stale result and a stale error.\<close>

definition with_image :: sys where
  "with_image = init\<lparr>imageSrc := Some camera_image\<rparr>"

definition stale :: sys where
  "stale = init\<lparr>imageSrc := Some camera_image, predictionResult := eczema,
     error := Some predict_error, fileInputRef := Some ''C:/fakepath/skin.png''\<rparr>"

text \<open>A service that answers status \<open>code\<close> with a body that parses to \<open>body\<close>.\<close>

definition service :: "nat \<Rightarrow> json settled \<Rightarrow> predict_env" where
  "service code body =
     \<lparr>fetch_get = (\<lambda>url. Fulfilled (ImageResponse (Fulfilled jpeg_blob))),
      fetch_post = (\<lambda>url form.
        Fulfilled \<lparr>status = code, statusText = [], json_body = body\<rparr>)\<rparr>"


text \<open>A browser in which the conversion of the data URI fails.\<close>

definition no_conversion :: predict_env where
  "no_conversion =
     \<lparr>fetch_get = (\<lambda>url. Rejected), fetch_post = (\<lambda>url form. Rejected)\<rparr>"

section \<open>The invariant of the transition system\<close>

text \<open>
  While the loading flag is set there is neither a result nor an error; an activation of
  \<^verbatim>\<open>handlePredict\<close> is suspended only while the flag is set, and there is at most one.
\<close>

definition loading_inv :: "config \<Rightarrow> bool" where
  "loading_inv c =
     ((isLoading (app c) \<longrightarrow> predictionResult (app c) = JNull \<and> error (app c) = None) \<and>
      (inflight c \<noteq> [] \<longrightarrow> isLoading (app c)) \<and>
      length (inflight c) \<le> 1)"

section \<open>Basic facts\<close>

lemma emit_simps [simp]:
  "effects (emit es s) = effects s @ es"
  "predictionResult (emit es s) = predictionResult s"
  "isLoading (emit es s) = isLoading s"
  "imageSrc (emit es s) = imageSrc s"
  "isCameraOpen (emit es s) = isCameraOpen s"
  "error (emit es s) = error s"
  "fileInputRef (emit es s) = fileInputRef s"
  "cameraView (emit es s) = cameraView s"
  "liveTracks (emit es s) = liveTracks s"
  by (simp_all add: emit_def)

lemma stop_tracks_simps [simp]:
  "predictionResult (foldl (\<lambda>s' t. track_stop t s') s ms) = predictionResult s"
  "isLoading (foldl (\<lambda>s' t. track_stop t s') s ms) = isLoading s"
  "imageSrc (foldl (\<lambda>s' t. track_stop t s') s ms) = imageSrc s"
  "isCameraOpen (foldl (\<lambda>s' t. track_stop t s') s ms) = isCameraOpen s"
  "error (foldl (\<lambda>s' t. track_stop t s') s ms) = error s"
  "effects (foldl (\<lambda>s' t. track_stop t s') s ms) = effects s @ map TrackStop ms"
  "liveTracks (foldl (\<lambda>s' t. track_stop t s') s ms) = liveTracks s - set ms"
  by (induction ms arbitrary: s) (auto simp: track_stop_def)

lemma cleanup_simps [simp]:
  "predictionResult (cleanup cv s) = predictionResult s"
  "isLoading (cleanup cv s) = isLoading s"
  "imageSrc (cleanup cv s) = imageSrc s"
  "isCameraOpen (cleanup cv s) = isCameraOpen s"
  "error (cleanup cv s) = error s"
  by (simp_all add: cleanup_def split: option.splits)

lemma rerender_simps [simp]:
  "predictionResult (rerender s) = predictionResult s"
  "isLoading (rerender s) = isLoading s"
  "imageSrc (rerender s) = imageSrc s"
  "isCameraOpen (rerender s) = isCameraOpen s"
  "error (rerender s) = error s"
  by (simp_all add: rerender_def CameraView_mount_def split: option.splits)

lemma alerts_append [simp]: "alerts (xs @ ys) = alerts xs @ alerts ys"
  by (induction xs rule: alerts.induct) simp_all

lemma captures_append [simp]: "captures (xs @ ys) = captures xs @ captures ys"
  by (induction xs rule: captures.induct) simp_all

lemma posts_append [simp]: "posts (xs @ ys) = posts xs @ posts ys"
  by (induction xs rule: posts.induct) simp_all

lemma alerts_TrackStop [simp]: "alerts (map TrackStop ms) = []"
  by (induction ms) simp_all

lemma captures_TrackStop [simp]: "captures (map TrackStop ms) = []"
  by (induction ms) simp_all

lemma rerender_closed_unmounts: "\<not> isCameraOpen s \<Longrightarrow> cameraView (rerender s) = None"
  by (simp add: rerender_def split: option.splits)

lemma rerender_closed_effects:
  "\<not> isCameraOpen s \<Longrightarrow> \<exists>ts. effects (rerender s) = effects s @ map TrackStop ts"
  by (auto simp: rerender_def cleanup_def split: option.splits intro: exI [of _ "[]"])

lemma suspend_simps [simp]:
  "suspend ps (Finished s) = \<lparr>app = s, inflight = ps\<rparr>"
  "suspend ps (Suspended q s) = \<lparr>app = s, inflight = q # ps\<rparr>"
  by (simp_all add: suspend_def)

section \<open>The camera session\<close>

text \<open>
  The cleanup of a view that was mounted by \<open>CameraView_mount\<close> finds \<^verbatim>\<open>null\<close> in its
  \<^verbatim>\<open>stream\<close> and stops nothing, whatever stream the camera delivered in between.
\<close>

lemma unmount_stops_nothing:
  assumes "cameraView s = None"
  shows "liveTracks (onClose_prop (openCamera_fulfilled ms (setIsCameraOpen True s))) =
    liveTracks s \<union> set ms"
  using assms
  by (simp add: onClose_prop_def openCamera_fulfilled_def setIsCameraOpen_def rerender_def
      CameraView_mount_def cleanup_def Let_def)

text \<open>
  C1: every way of closing the camera session stops all tracks of the acquired stream. The
  source does not: after the camera delivered a stream with the one track 0, the view holds
  that stream in its state, but the cleanup still holds the \<^verbatim>\<open>null\<close> of the first
  render. Closing by the close button and closing by a capture both unmount the view and
  leave track 0 live; no \<open>TrackStop\<close> is among the effects.
\<close>

theorem camera_close_leaves_tracks_live:
  "(let opened = openCamera_fulfilled [0] (setIsCameraOpen True init);
        closed = onClose_prop opened
    in cameraView opened =
         Some \<lparr>stream = Some [0], srcObject = Some [0], cleanup_stream = None\<rparr> \<and>
       liveTracks opened = {0} \<and>
       cameraView closed = None \<and> liveTracks closed = {0} \<and>
       effects closed = [GetUserMedia, OnClose]) \<and>
   (let opened = openCamera_fulfilled [0] (setIsCameraOpen True init);
        captured = handleCapture onCapture_prop onClose_prop camera_image opened
    in cameraView captured = None \<and> liveTracks captured = {0} \<and>
       effects captured = [GetUserMedia, OnCapture camera_image, OnClose])"
  by (simp add: init_def setIsCameraOpen_def rerender_def CameraView_mount_def
      openCamera_fulfilled_def onClose_prop_def cleanup_def handleCapture_def onCapture_prop_def
      handleCameraCapture_def emit_def Let_def)

text \<open>
  C9: when the camera request is rejected, the \<^verbatim>\<open>catch\<close> block raises exactly one alert,
  does not invoke the acquisition callback (the image, the result and the error stay as they
  were), and closes the camera view at once: the flag is false and the view is unmounted.
  This holds in every state; for the session that starts in the initial state the effects
  are the camera request, the console message, the alert and the call of \<^verbatim>\<open>onClose\<close>.
\<close>

theorem camera_denied_alerts_once_and_closes:
  "alerts (effects (openCamera_rejected onClose_prop s)) = alerts (effects s) @ [camera_alert] \<and>
   captures (effects (openCamera_rejected onClose_prop s)) = captures (effects s) \<and>
   imageSrc (openCamera_rejected onClose_prop s) = imageSrc s \<and>
   predictionResult (openCamera_rejected onClose_prop s) = predictionResult s \<and>
   error (openCamera_rejected onClose_prop s) = error s \<and>
   \<not> isCameraOpen (openCamera_rejected onClose_prop s) \<and>
   cameraView (openCamera_rejected onClose_prop s) = None \<and>
   effects (openCamera_rejected onClose_prop (setIsCameraOpen True init)) =
     [GetUserMedia, ConsoleError ''Error accessing camera: '',
      Alert ''Could not access the camera. Please ensure you have given permission.'',
      OnClose]"
proof -
  let ?s1 = "(emit [OnClose]
      (emit [ConsoleError ''Error accessing camera: '', Alert camera_alert] s))
      \<lparr>isCameraOpen := False\<rparr>"
  have eq: "openCamera_rejected onClose_prop s = rerender ?s1"
    by (simp add: openCamera_rejected_def onClose_prop_def setIsCameraOpen_def)
  have closed: "\<not> isCameraOpen ?s1"
    by simp
  obtain ts where ts: "effects (rerender ?s1) = effects ?s1 @ map TrackStop ts"
    using rerender_closed_effects [OF closed] by blast
  have general:
    "alerts (effects (rerender ?s1)) = alerts (effects s) @ [camera_alert] \<and>
     captures (effects (rerender ?s1)) = captures (effects s) \<and>
     imageSrc (rerender ?s1) = imageSrc s \<and>
     predictionResult (rerender ?s1) = predictionResult s \<and>
     error (rerender ?s1) = error s \<and>
     \<not> isCameraOpen (rerender ?s1) \<and>
     cameraView (rerender ?s1) = None"
    using rerender_closed_unmounts [OF closed] by (simp add: ts)
  have session:
    "effects (openCamera_rejected onClose_prop (setIsCameraOpen True init)) =
       [GetUserMedia, ConsoleError ''Error accessing camera: '',
        Alert ''Could not access the camera. Please ensure you have given permission.'',
        OnClose]"
    by (simp add: init_def setIsCameraOpen_def rerender_def CameraView_mount_def
        openCamera_rejected_def onClose_prop_def cleanup_def camera_alert_def emit_def)
  from general session show ?thesis
    unfolding eq by blast
qed

section \<open>Acquisition and clearing\<close>

text \<open>
  C5: every new acquisition makes the data URI of the new image the current image and clears
  the result and the error. For a file selection this is the \<^verbatim>\<open>onload\<close> handler of the
  read that \<^verbatim>\<open>handleImageChange\<close> starts on the first selected file, called with the
  data URI \<open>d\<close> the reader produced; for the camera it is \<^verbatim>\<open>handleCameraCapture\<close>, alone
  and as the \<^verbatim>\<open>onCapture\<close> prop called by the capture button of \<^verbatim>\<open>CameraView\<close>.
\<close>

theorem acquisition_sets_image_and_clears:
  "(let s' = reader_onload d (handleImageChange (Some (f # fs)) s)
    in effects (handleImageChange (Some (f # fs)) s) = effects s @ [ReadAsDataURL f] \<and>
       imageSrc s' = Some d \<and> predictionResult s' = JNull \<and> error s' = None) \<and>
   (let s' = handleCameraCapture d s
    in imageSrc s' = Some d \<and> predictionResult s' = JNull \<and> error s' = None) \<and>
   (let s' = handleCapture onCapture_prop onClose_prop d s
    in imageSrc s' = Some d \<and> predictionResult s' = JNull \<and> error s' = None)"
  by (simp add: reader_onload_def handleImageChange_def handleCameraCapture_def
      handleCapture_def onCapture_prop_def onClose_prop_def setIsCameraOpen_def)

text \<open>
  C8: from any state, \<^verbatim>\<open>handleClear\<close> leaves no image, no result and no error, and the
  file input, where there is one, has the empty value; clearing twice gives the same state
  as clearing once.
\<close>

theorem clear_resets_and_idempotent:
  "imageSrc (handleClear s) = None \<and>
   predictionResult (handleClear s) = JNull \<and>
   error (handleClear s) = None \<and>
   fileInputRef (handleClear s) = map_option (\<lambda>v. []) (fileInputRef s) \<and>
   handleClear (handleClear s) = handleClear s"
  by (cases "fileInputRef s") (simp_all add: handleClear_def)

section \<open>One run of handlePredict\<close>

text \<open>A run only adds effects; and it is the run of the transition system.\<close>

lemma handlePredict_effects: "\<exists>new. effects (handlePredict env s) = effects s @ new"
  by (auto simp: handlePredict_def predict_finally_def predict_catch_def Let_def
      split: option.splits settled.splits)

lemma handlePredict_run:
  assumes "imageSrc s = Some src" and "src \<noteq> []" and "\<not> isLoading s"
  shows "run (PredictClick # settlements env src) \<lparr>app = s, inflight = []\<rparr> =
    Some \<lparr>app = handlePredict env s, inflight = []\<rparr>"
  using assms
  by (simp add: settlements_def handlePredict_def handlePredict_begin_def truthy_str_def
      resume_def resume_image_response_def resume_blob_def resume_api_response_def
      resume_json_def Let_def split: settled.splits)

text \<open>
  C4: without an image (\<^verbatim>\<open>imageSrc\<close> is \<^verbatim>\<open>null\<close> or empty) \<^verbatim>\<open>handlePredict\<close> returns at
  once: the whole state is as before, so the loading flag, the result and the error are
  unchanged and no effect, in particular no network call, was issued.
\<close>

theorem predict_without_image_noop:
  "\<not> truthy_str (imageSrc s) \<Longrightarrow>
     handlePredict env s = s \<and> effects (handlePredict env s) = effects s \<and>
     handlePredict_begin s = Finished s"
  by (auto simp: handlePredict_def handlePredict_begin_def truthy_str_def split: option.splits)

text \<open>The initial state has no image; a run there changes nothing.\<close>

theorem predict_without_image_noop_witness:
  "\<not> truthy_str (imageSrc init) \<and>
   handlePredict (service 200 (Fulfilled eczema)) init = init \<and>
   effects (handlePredict (service 200 (Fulfilled eczema)) init) = effects init \<and>
   handlePredict_begin init = Finished init"
  using predict_without_image_noop [of init "service 200 (Fulfilled eczema)"]
  by (simp add: init_def truthy_str_def)

text \<open>
  C3, as stated: a run issues exactly one POST, whose single field is named
  \<^verbatim>\<open>skin_image.jpg\<close>. Two runs on a state with an image show otherwise. When the
  conversion of the data URI is rejected, the run issues no POST. When everything succeeds,
  the one POST has a single field whose name is \<^verbatim>\<open>file\<close>; \<^verbatim>\<open>skin_image.jpg\<close> is its
  file name.
\<close>

theorem predict_post_missing_and_field_name:
  "truthy_str (imageSrc with_image) \<and>
   posts (effects (handlePredict no_conversion with_image)) = [] \<and>
   posts (effects (handlePredict (service 200 (Fulfilled eczema)) with_image)) =
     [(''http://localhost:8000/predict'', [(''file'', jpeg_blob, ''skin_image.jpg'')])] \<and>
   ''file'' \<noteq> ''skin_image.jpg''"
  by (simp add: with_image_def init_def truthy_str_def camera_image_def handlePredict_def
      no_conversion_def service_def predict_finally_def predict_catch_def Let_def formData_def
      predict_url_def ok_def)

text \<open>
  C3, amended: a run on an image issues one POST when the data URI converts to a blob
  \<open>b\<close>, and none when \<^verbatim>\<open>fetch(imageSrc)\<close> or \<^verbatim>\<open>response.blob()\<close> is rejected. The POST
  goes to \<^verbatim>\<open>http://localhost:8000/predict\<close>; its body has the single field \<^verbatim>\<open>file\<close>,
  which carries \<open>b\<close> under the file name \<^verbatim>\<open>skin_image.jpg\<close>.
\<close>

theorem predict_posts_converted_image_once:
  assumes "imageSrc s = Some src" and "src \<noteq> []"
  shows "\<exists>new. effects (handlePredict env s) = effects s @ new \<and>
    posts new =
      (case fetch_get env src of
         Rejected \<Rightarrow> []
       | Fulfilled response \<Rightarrow>
           (case blob_promise response of
              Rejected \<Rightarrow> []
            | Fulfilled b \<Rightarrow>
                [(''http://localhost:8000/predict'', [(''file'', b, ''skin_image.jpg'')])]))"
  using assms
  by (simp add: handlePredict_def predict_finally_def predict_catch_def Let_def formData_def
      predict_url_def split: settled.splits)

theorem predict_posts_converted_image_once_witness:
  "imageSrc with_image = Some camera_image \<and> camera_image \<noteq> [] \<and>
   (\<exists>new. effects (handlePredict (service 200 (Fulfilled eczema)) with_image) =
        effects with_image @ new \<and>
      posts new =
        [(''http://localhost:8000/predict'', [(''file'', jpeg_blob, ''skin_image.jpg'')])])"
proof -
  have img: "imageSrc with_image = Some camera_image" "camera_image \<noteq> []"
    by (simp_all add: with_image_def camera_image_def)
  from predict_posts_converted_image_once [OF img, of "service 200 (Fulfilled eczema)"] img
  show ?thesis
    by (simp add: service_def)
qed






lemma render_no_result:
  assumes "predictionResult s = JNull"
  shows "render s =
    Inr \<lparr>busy = isLoading s,
         predict_disabled = (isLoading s \<or> \<not> truthy_str (imageSrc s)),
         preview = (if truthy_str (imageSrc s) then imageSrc s else None),
         banner = (if truthy_str (error s) then error s else None),
         result_slot = Empty\<rparr>"
  using assms by (simp add: render_def)

text \<open>
  A body that is stored and breaks the next render: a truthy body without a
  \<^verbatim>\<open>precautions\<close> array makes \<^verbatim>\<open>result.precautions.map\<close> throw, and an object among the
  values shown is refused by React. Neither state is one of the four request states.
\<close>

lemma unrenderable_body_breaks_render:
  "render (handlePredict (service 200 (Fulfilled (JObj [(''prediction'', JStr ''Eczema'')])))
      with_image) = Inl TypeError \<and>
   render (handlePredict (service 200 (Fulfilled (JNum (Finite 1)))) with_image) =
     Inl TypeError \<and>
   render (handlePredict (service 200 (Fulfilled (JObj [(''precautions'', JArr [JObj []])])))
      with_image) = Inl InvalidChild \<and>
   requestState (handlePredict (service 200 (Fulfilled (JNum (Finite 1)))) with_image) = None"
  by (simp add: with_image_def init_def camera_image_def handlePredict_def service_def
      predict_finally_def Let_def ok_def render_def PredictionResult_render_def requestState_def
      valid_child_opt_def)

text \<open>
  C6: a run on an image that fails (the POST is rejected, or answered with a status outside
  200..299, or its body does not parse; likewise when the conversion of the data URI is
  rejected) ends in the \<^verbatim>\<open>catch\<close> block: the failure is logged, the error is the one
  fixed message that asks to make sure the backend server is running, there is no result,
  the loading flag is off, and the request state is Failed.
\<close>

theorem predict_failure_sets_error:
  assumes "imageSrc s = Some src" and "src \<noteq> []"
    and "fetch_get env src = Rejected \<or>
      (\<exists>response. fetch_get env src = Fulfilled response \<and>
         (blob_promise response = Rejected \<or>
          (\<exists>b. blob_promise response = Fulfilled b \<and>
             (fetch_post env predict_url (formData b) = Rejected \<or>
              (\<exists>apiResponse.
                 fetch_post env predict_url (formData b) = Fulfilled apiResponse \<and>
                 (\<not> (200 \<le> status apiResponse \<and> status apiResponse \<le> 299) \<or>
                  json_body apiResponse = Rejected))))))"
  shows "error (handlePredict env s) =
      Some ''Error predicting disease. Please try again. Make sure the backend server is running.'' \<and>
    predictionResult (handlePredict env s) = JNull \<and>
    \<not> isLoading (handlePredict env s) \<and>
    requestState (handlePredict env s) = Some Failed \<and>
    last (effects (handlePredict env s)) = ConsoleError ''Prediction error:''"
proof -
  have fields: "error (handlePredict env s) = Some predict_error"
    "predictionResult (handlePredict env s) = JNull"
    "\<not> isLoading (handlePredict env s)"
    "last (effects (handlePredict env s)) = ConsoleError ''Prediction error:''"
    using assms
    by (auto simp: handlePredict_def predict_finally_def predict_catch_def Let_def ok_def
        split: if_splits)
  from render_no_result [OF fields(2)] fields(1,3)
  have "requestState (handlePredict env s) = Some Failed"
    by (simp add: requestState_def truthy_str_def predict_error_def)
  with fields show ?thesis
    by (simp add: predict_error_def)
qed

text \<open>The service answers 500 to a run that starts with a stale result and a stale error.\<close>

theorem predict_failure_sets_error_witness:
  "imageSrc stale = Some camera_image \<and> camera_image \<noteq> [] \<and>
   fetch_post (service 500 (Fulfilled eczema)) predict_url (formData jpeg_blob) =
     Fulfilled \<lparr>status = 500, statusText = [], json_body = Fulfilled eczema\<rparr> \<and>
   error (handlePredict (service 500 (Fulfilled eczema)) stale) =
     Some ''Error predicting disease. Please try again. Make sure the backend server is running.'' \<and>
   predictionResult (handlePredict (service 500 (Fulfilled eczema)) stale) = JNull \<and>
   \<not> isLoading (handlePredict (service 500 (Fulfilled eczema)) stale) \<and>
   requestState (handlePredict (service 500 (Fulfilled eczema)) stale) = Some Failed"
proof -
  let ?env = "service 500 (Fulfilled eczema)"
  have img: "imageSrc stale = Some camera_image" "camera_image \<noteq> []"
    by (simp_all add: stale_def camera_image_def)
  have post: "fetch_post ?env predict_url (formData jpeg_blob) =
      Fulfilled \<lparr>status = 500, statusText = [], json_body = Fulfilled eczema\<rparr>"
    by (simp add: service_def)
  have fails: "fetch_get ?env camera_image = Rejected \<or>
      (\<exists>response. fetch_get ?env camera_image = Fulfilled response \<and>
         (blob_promise response = Rejected \<or>
          (\<exists>b. blob_promise response = Fulfilled b \<and>
             (fetch_post ?env predict_url (formData b) = Rejected \<or>
              (\<exists>apiResponse.
                 fetch_post ?env predict_url (formData b) = Fulfilled apiResponse \<and>
                 (\<not> (200 \<le> status apiResponse \<and> status apiResponse \<le> 299) \<or>
                  json_body apiResponse = Rejected))))))"
    by (simp add: service_def)
  from predict_failure_sets_error [OF img fails] img post show ?thesis
    by simp
qed







section \<open>Loading excludes result and error\<close>

text \<open>
  A handler that is not part of \<^verbatim>\<open>handlePredict\<close> keeps the loading flag, and it either
  keeps the result and the error or clears both.
\<close>

lemma ui_inv:
  assumes "loading_inv c" and "ui h c = Some c'"
    and "\<And>s. isLoading (h s) = isLoading s"
    and "\<And>s. predictionResult (h s) = predictionResult s \<and> error (h s) = error s \<or>
             predictionResult (h s) = JNull \<and> error (h s) = None"
  shows "loading_inv c'"
proof -
  have c': "c' = c\<lparr>app := h (app c)\<rparr>"
    using assms(2) by (simp add: ui_def)
  show ?thesis
    using assms(1) assms(3) [of "app c"] assms(4) [of "app c"]
    by (auto simp: c' loading_inv_def)
qed

text \<open>
  A resumed activation either finishes, through \<^verbatim>\<open>catch\<close> or with the parsed body, and
  then turns the loading flag off, or it is suspended again with flag, result and error
  untouched.
\<close>

lemma resume_inv:
  assumes "loading_inv c" and "resume p k c = Some c'"
    and "\<And>s. k s = Finished (predict_finally (predict_catch s)) \<or>
             (\<exists>d. k s = Finished (predict_finally (s\<lparr>predictionResult := d\<rparr>))) \<or>
             (\<exists>q s'. k s = Suspended q s' \<and> isLoading s' = isLoading s \<and>
                predictionResult s' = predictionResult s \<and> error s' = error s)"
  shows "loading_inv c'"
proof -
  from assms(2) have p: "p \<in> set (inflight c)"
    and c': "c' = suspend (remove1 p (inflight c)) (k (app c))"
    by (auto simp: resume_def split: if_splits)
  from assms(1) p have one: "inflight c = [p]"
    by (cases "inflight c") (auto simp: loading_inv_def)
  from assms(1) p have ld: "isLoading (app c)" "predictionResult (app c) = JNull"
      "error (app c) = None"
    by (auto simp: loading_inv_def)
  from assms(3) [of "app c"] show ?thesis
    using ld by (auto simp: c' one loading_inv_def predict_finally_def predict_catch_def)
qed

lemma resume_shapes:
  fixes s :: sys
  defines "shape \<equiv> \<lambda>a. a = Finished (predict_finally (predict_catch s)) \<or>
             (\<exists>d. a = Finished (predict_finally (s\<lparr>predictionResult := d\<rparr>))) \<or>
             (\<exists>q s'. a = Suspended q s' \<and> isLoading s' = isLoading s \<and>
                predictionResult s' = predictionResult s \<and> error s' = error s)"
  shows "shape (resume_image_response r1 s)" and "shape (resume_blob r2 s)"
    and "shape (resume_api_response r3 s)" and "shape (resume_json r4 s)"
  unfolding shape_def
  by (auto simp: resume_image_response_def resume_blob_def resume_api_response_def
      resume_json_def split: settled.splits)

lemma fire_inv:
  assumes "loading_inv c" and "fire e c = Some c'"
  shows "loading_inv c'"
proof (cases e)
  case (SelectFile files)
  with assms show ?thesis
    by (auto elim!: ui_inv simp: handleImageChange_def split: option.splits list.splits)
next
  case (FileLoaded d)
  with assms show ?thesis
    by (auto elim!: ui_inv simp: reader_onload_def)
next
  case UseCameraClick
  with assms show ?thesis
    by (auto elim!: ui_inv simp: setIsCameraOpen_def)
next
  case (CameraGranted ms)
  with assms show ?thesis
    by (auto elim!: ui_inv simp: openCamera_fulfilled_def Let_def split: option.splits)
next
  case CameraDenied
  with assms show ?thesis
    by (auto elim!: ui_inv simp: openCamera_rejected_def onClose_prop_def setIsCameraOpen_def)
next
  case (CaptureClick d)
  with assms show ?thesis
    by (auto elim!: ui_inv simp: handleCapture_def onCapture_prop_def handleCameraCapture_def
        onClose_prop_def setIsCameraOpen_def split: if_splits)
next
  case CloseCameraClick
  with assms show ?thesis
    by (auto elim!: ui_inv simp: onClose_prop_def setIsCameraOpen_def split: if_splits)
next
  case PredictClick
  with assms show ?thesis
    by (auto simp: loading_inv_def handlePredict_begin_def truthy_str_def
        split: if_splits option.splits)
next
  case ClearClick
  with assms show ?thesis
    by (auto elim!: ui_inv simp: handleClear_def Let_def split: if_splits option.splits)
next
  case (ImageResponseSettled r)
  with assms(2) have "resume AwaitImageResponse (resume_image_response r) c = Some c'"
    by simp
  from resume_inv [OF assms(1) this] show ?thesis
    by (simp add: resume_shapes)
next
  case (BlobSettled r)
  with assms(2) have "resume AwaitBlob (resume_blob r) c = Some c'"
    by simp
  from resume_inv [OF assms(1) this] show ?thesis
    by (simp add: resume_shapes)
next
  case (ApiResponseSettled r)
  with assms(2) have "resume AwaitApiResponse (resume_api_response r) c = Some c'"
    by simp
  from resume_inv [OF assms(1) this] show ?thesis
    by (simp add: resume_shapes)
next
  case (JsonSettled r)
  with assms(2) have "resume AwaitJson (resume_json r) c = Some c'"
    by simp
  from resume_inv [OF assms(1) this] show ?thesis
    by (simp add: resume_shapes)
qed

lemma run_inv: "loading_inv c \<Longrightarrow> run es c = Some c' \<Longrightarrow> loading_inv c'"
  by (induction es arbitrary: c) (auto split: option.splits dest: fire_inv)

lemma init_inv: "loading_inv init_config"
  by (simp add: loading_inv_def init_config_def init_def)

text \<open>
  C10: in every configuration the component reaches from its initial state, by user actions
  on enabled controls and settling promises in any order, the loading flag excludes both a
  result and an error. The configurations between two events are the states at the
  \<^verbatim>\<open>await\<close> points of \<^verbatim>\<open>handlePredict\<close> and the states in which no run is suspended.
\<close>

theorem loading_excludes_result_and_error:
  assumes "run es init_config = Some c" and "isLoading (app c)"
  shows "predictionResult (app c) = JNull \<and> error (app c) = None"
  using run_inv [OF init_inv assms(1)] assms(2) by (simp add: loading_inv_def)

text \<open>
  A file is selected and read, the predict button is clicked and \<^verbatim>\<open>fetch(imageSrc)\<close>
  fulfils: the run is suspended at \<^verbatim>\<open>await response.blob()\<close> with the loading flag on.
\<close>

theorem loading_excludes_result_and_error_witness:
  "run [SelectFile (Some [''skin.png'']), FileLoaded camera_image, PredictClick,
        ImageResponseSettled (Fulfilled (ImageResponse (Fulfilled jpeg_blob)))] init_config =
     Some \<lparr>app = emit [ReadAsDataURL ''skin.png'', Fetch camera_image]
                   (init\<lparr>imageSrc := Some camera_image, isLoading := True\<rparr>),
            inflight = [AwaitBlob]\<rparr> \<and>
   isLoading (emit [ReadAsDataURL ''skin.png'', Fetch camera_image]
                (init\<lparr>imageSrc := Some camera_image, isLoading := True\<rparr>)) \<and>
   predictionResult (emit [ReadAsDataURL ''skin.png'', Fetch camera_image]
                (init\<lparr>imageSrc := Some camera_image, isLoading := True\<rparr>)) = JNull \<and>
   error (emit [ReadAsDataURL ''skin.png'', Fetch camera_image]
                (init\<lparr>imageSrc := Some camera_image, isLoading := True\<rparr>)) = None"
proof -
  let ?es = "[SelectFile (Some [''skin.png'']), FileLoaded camera_image, PredictClick,
        ImageResponseSettled (Fulfilled (ImageResponse (Fulfilled jpeg_blob)))]"
  let ?s = "emit [ReadAsDataURL ''skin.png'', Fetch camera_image]
                   (init\<lparr>imageSrc := Some camera_image, isLoading := True\<rparr>)"
  have r: "run ?es init_config = Some \<lparr>app = ?s, inflight = [AwaitBlob]\<rparr>"
    by (simp add: init_config_def init_def ui_def handleImageChange_def reader_onload_def
        truthy_str_def camera_image_def handlePredict_begin_def resume_def
        resume_image_response_def emit_def)
  have l: "isLoading (app \<lparr>app = ?s, inflight = [AwaitBlob]\<rparr>)"
    by simp
  from loading_excludes_result_and_error [OF r l] r l show ?thesis
    by simp
qed

end
